theory Spec2Isabelle
  imports Main "HOL-Library.Multiset"
begin

section \<open>Python string helpers\<close>

text \<open>
  Python strings are modelled as \<open>string\<close> (a list of characters).
  \<open>startswith\<close>, \<open>endswith\<close> and \<open>rstrip\<close> are \<^verbatim>\<open>str.startswith\<close>,
  \<^verbatim>\<open>str.endswith\<close> and \<^verbatim>\<open>str.rstrip(chars)\<close> for a one-character set.
\<close>

definition startswith :: "string \<Rightarrow> string \<Rightarrow> bool" where
  "startswith s p = (take (length p) s = p)"

definition endswith :: "string \<Rightarrow> string \<Rightarrow> bool" where
  "endswith s p = (length p \<le> length s \<and> drop (length s - length p) s = p)"

definition rstrip :: "char \<Rightarrow> string \<Rightarrow> string" where
  "rstrip c s = rev (dropWhile (\<lambda>x. x = c) (rev s))"

section \<open>The upload script: data\<close>

text \<open>
  What is on disk at a path, as \<^verbatim>\<open>os.walk\<close> and \<^verbatim>\<open>zipf.write\<close> meet it. A file
  carries whether \<^verbatim>\<open>zipf.write\<close> can read it (it raises on one it cannot read, a
  dangling link included). A directory carries its entries in the order \<^verbatim>\<open>scandir\<close>
  lists them, and its kind: \<^verbatim>\<open>os.walk\<close>, called with the defaults
  \<^verbatim>\<open>onerror=None\<close> and \<^verbatim>\<open>followlinks=False\<close>, skips without a word a directory it
  cannot list, and lists a symbolic link to a directory among the directories but does
  not descend into it.
\<close>

datatype dir_kind = Listable | Unlistable | Symlink

datatype node = File string bool | Dir string dir_kind "node list"

type_synonym path = "string list"

text \<open>
  The archive file on disk: the members written so far, and whether the writer has been
  closed (closing a \<^verbatim>\<open>ZipFile\<close> appends the central directory).
\<close>

datatype zip_image = Zip (members: "path list") (finalized: bool)

datatype exn = ValueError | Timeout | ConnectionError | KeyboardInterrupt | OtherError

text \<open>
  A JSON value as far as the script inspects it: a string, or any other value (carried
  with the text \<^verbatim>\<open>str()\<close> gives for it).
\<close>

datatype jval = JString string | JOther string

fun py_str :: "jval \<Rightarrow> string" where
  "py_str (JString s) = s"
| "py_str (JOther s) = s"

text \<open>
  What \<^verbatim>\<open>response.json()\<close> gives: it raises on a body that is not JSON; a JSON value
  that is not an object has no \<^verbatim>\<open>.get\<close>; an object is a dictionary.
\<close>

datatype body = NotJson | JsonNonObject | JsonObject "string \<Rightarrow> jval option"

text \<open>An HTTP call returns a response (status code, text, parsed body) or raises.\<close>

datatype reply = Response nat string body | Raises exn

datatype event =
    EvZipOpen
  | EvZipWrite path
  | EvZipClose
  | EvChecksum
  | EvHttpPost string string
  | EvHttpGet string
  | EvSleep nat
  | EvRemove
  | EvCleanup

text \<open>The printed lines, one constructor for each \<^verbatim>\<open>print\<close> of the script.\<close>

datatype msg =
    MsgCreatingPackage
  | MsgSourceMissing string
  | MsgPackageCreated nat
  | MsgChecksum zip_image
  | MsgPackageFailed
  | MsgUploading
  | MsgPackageNotFound
  | MsgUploadingTo string
  | MsgUploadSuccessful
  | MsgUploadId "jval option"
  | MsgUploadStatus "jval option"
  | MsgAuthFailed
  | MsgTooLarge
  | MsgUploadFailedStatus nat
  | MsgResponseText string
  | MsgUploadTimedOut
  | MsgConnectionFailed
  | MsgUploadFailed
  | MsgMonitoring
  | MsgProcessingStatus jval
  | MsgProcessingCompleted
  | MsgPublishedAt jval
  | MsgProcessingFailed
  | MsgProcessingError jval
  | MsgUnknownStatus jval
  | MsgStatusCheckFailed nat
  | MsgStatusCheckError
  | MsgMonitoringTimedOut
  | MsgCleanedUp
  | MsgCleanupWarning
  | MsgDeployStart
  | MsgDeployCompleted
  | MsgDeployFailed
  | MsgDeployInterrupted
  | MsgDeployError
  | MsgAllOperationsCompleted
  | MsgCheckErrorsAbove
  | MsgConfigurationError

text \<open>
  The environment the script runs in: the environment variables; what is at a path of
  the working directory (\<open>None\<close>: nothing, \<^verbatim>\<open>Path.exists()\<close> is false); the version
  label \<^verbatim>\<open>get_version_info\<close> computes; whether the archive file can be opened for
  writing, and for reading; the reply to the upload request; the reply to the \<open>k\<close>-th
  status query; whether the wait after the \<open>k\<close>-th query is interrupted by the user;
  and whether \<^verbatim>\<open>os.remove\<close> succeeds.
\<close>

record env =
  getenv :: "string \<Rightarrow> string option"
  dir_tree :: "string \<Rightarrow> node option"
  version_info :: string
  open_ok :: bool
  read_ok :: bool
  post_reply :: reply
  poll_reply :: "nat \<Rightarrow> reply"
  sleep_interrupted :: "nat \<Rightarrow> bool"
  remove_ok :: bool

text \<open>
  The state the script changes: the archive file in the working directory, the effects
  in the order they happen, and the printed lines.
\<close>

record world =
  archive :: "zip_image option"
  trace :: "event list"
  printed :: "msg list"

record uploader =
  base_url :: string
  username :: string
  password :: string

definition docs_dir :: string where "docs_dir = ''docs''"
definition build_dir :: string where "build_dir = ''site''"

definition say :: "msg \<Rightarrow> world \<Rightarrow> world" where
  "say m w = w\<lparr>printed := printed w @ [m]\<rparr>"

definition emit :: "event \<Rightarrow> world \<Rightarrow> world" where
  "emit ev w = w\<lparr>trace := trace w @ [ev]\<rparr>"

section \<open>The constructor\<close>

definition getenv_default :: "env \<Rightarrow> string \<Rightarrow> string \<Rightarrow> string" where
  "getenv_default e k d = (case getenv e k of None \<Rightarrow> d | Some v \<Rightarrow> v)"

definition init :: "env \<Rightarrow> exn + uploader" where
  "init e =
     (let url = rstrip CHR ''/'' (getenv_default e ''FLUID_URL'' '''');
          usr = getenv_default e ''FLUID_USER'' '''';
          pwd = getenv_default e ''FLUID_PASS'' ''''
      in if url \<noteq> [] \<and> usr \<noteq> [] \<and> pwd \<noteq> []
         then Inr \<lparr>base_url = url, username = usr, password = pwd\<rparr>
         else Inl ValueError)"

section \<open>Packaging\<close>

text \<open>
  \<^verbatim>\<open>os.walk\<close> lists a directory as its subdirectories and its files; the loop body
  prunes the hidden subdirectories in place, writes the files that are not hidden, and
  the walk then descends into the subdirectories that are left, if they are real
  directories that can be listed. \<open>walk\<close> gives the files the loop passes to
  \<^verbatim>\<open>zipf.write\<close>, in that order, each with its archive name (the path relative to the
  source directory).
\<close>

fun files_of :: "node list \<Rightarrow> (string \<times> bool) list" where
  "files_of [] = []"
| "files_of (File f r # ns) = (f, r) # files_of ns"
| "files_of (Dir d k sub # ns) = files_of ns"

fun walk :: "path \<Rightarrow> node list \<Rightarrow> (path \<times> bool) list"
  and descend :: "path \<Rightarrow> node list \<Rightarrow> (path \<times> bool) list" where
  "walk root entries =
     map (\<lambda>(f, r). (root @ [f], r)) (filter (\<lambda>(f, r). \<not> startswith f ''.'') (files_of entries))
     @ descend root entries"
| "descend root [] = []"
| "descend root (File f r # ns) = descend root ns"
| "descend root (Dir d k sub # ns) =
     (if \<not> startswith d ''.'' \<and> k = Listable then walk (root @ [d]) sub else [])
     @ descend root ns"

text \<open>
  \<^verbatim>\<open>os.walk(source_dir)\<close> from the top: a path that is a regular file, or a directory
  that cannot be listed, yields nothing; a symbolic link at the top is followed.
\<close>

fun walk_top :: "node \<Rightarrow> (path \<times> bool) list" where
  "walk_top (File f r) = []"
| "walk_top (Dir d Unlistable entries) = []"
| "walk_top (Dir d Listable entries) = walk [] entries"
| "walk_top (Dir d Symlink entries) = walk [] entries"

text \<open>
  The body of the \<^verbatim>\<open>for file in files\<close> loops: each file is written and counted;
  \<^verbatim>\<open>zipf.write\<close> raises on a file it cannot read, which leaves the loops.
\<close>

definition zip_write :: "path \<Rightarrow> world \<Rightarrow> world" where
  "zip_write p w =
     emit (EvZipWrite p) (w\<lparr>archive := map_option (\<lambda>z. Zip (members z @ [p]) False) (archive w)\<rparr>)"

fun write_files :: "(path \<times> bool) list \<Rightarrow> nat \<Rightarrow> world \<Rightarrow> (exn + nat) \<times> world" where
  "write_files [] files_added w = (Inr files_added, w)"
| "write_files ((p, readable) # ps) files_added w =
     (if readable then write_files ps (files_added + 1) (zip_write p w)
      else (Inl OtherError, w))"

text \<open>Leaving the \<^verbatim>\<open>with\<close> block closes the writer, on every path.\<close>

definition zip_close :: "world \<Rightarrow> world" where
  "zip_close w =
     emit EvZipClose (w\<lparr>archive := map_option (\<lambda>z. Zip (members z) True) (archive w)\<rparr>)"

text \<open>
  \<^verbatim>\<open>calculate_checksum\<close> opens the file and reads it as it is on disk at the time of
  the call; the digest is represented by the image it is the digest of. \<^verbatim>\<open>open\<close>
  raises when the file cannot be read or is not there.
\<close>

definition calculate_checksum :: "env \<Rightarrow> world \<Rightarrow> (exn + zip_image) \<times> world" where
  "calculate_checksum e w =
     (if read_ok e then
        (case archive w of
           None \<Rightarrow> (Inl OtherError, w)
         | Some z \<Rightarrow> (Inr z, emit EvChecksum w))
      else (Inl OtherError, w))"

text \<open>
  \<^verbatim>\<open>source_dir = self.build_dir if self.build_dir.exists() else self.docs_dir\<close>
\<close>

definition source_dir :: "env \<Rightarrow> string" where
  "source_dir e = (if dir_tree e build_dir \<noteq> None then build_dir else docs_dir)"

text \<open>
  Everything from the \<^verbatim>\<open>ZipFile\<close> constructor on is inside the \<^verbatim>\<open>try\<close>: a failing
  open, write or checksum ends in the \<^verbatim>\<open>except Exception\<close> branch, which prints the
  failure and returns \<^verbatim>\<open>False\<close>. When the constructor fails nothing is written; later
  failures leave the \<^verbatim>\<open>with\<close> block first, which closes the writer.
\<close>

definition create_package :: "env \<Rightarrow> world \<Rightarrow> bool \<times> world" where
  "create_package e w =
     (let w = say MsgCreatingPackage w
      in case dir_tree e (source_dir e) of
           None \<Rightarrow> (False, say (MsgSourceMissing (source_dir e)) w)
         | Some tree \<Rightarrow>
             (if \<not> open_ok e then (False, say MsgPackageFailed w)
              else
                (let w = emit EvZipOpen (w\<lparr>archive := Some (Zip [] False)\<rparr>)
                 in case write_files (walk_top tree) 0 w of
                      (Inl x, w) \<Rightarrow> (False, say MsgPackageFailed (zip_close w))
                    | (Inr files_added, w) \<Rightarrow>
                        (let w = say (MsgPackageCreated files_added) w
                         in case calculate_checksum e w of
                              (Inl x, w) \<Rightarrow> (False, say MsgPackageFailed (zip_close w))
                            | (Inr checksum, w) \<Rightarrow>
                                (True, zip_close (say (MsgChecksum checksum) w))))))"

section \<open>Status polling\<close>

definition max_attempts :: nat where "max_attempts = 30"

text \<open>
  \<^verbatim>\<open>time.sleep(10); attempt += 1; continue\<close>: \<open>None\<close> when the loop goes on. A
  \<^verbatim>\<open>KeyboardInterrupt\<close> during the wait is not caught by \<^verbatim>\<open>except Exception\<close> and
  leaves the function.
\<close>

definition wait_and_retry :: "env \<Rightarrow> nat \<Rightarrow> world \<Rightarrow> (exn + bool) option \<times> world" where
  "wait_and_retry e attempt w =
     (let w = emit (EvSleep 10) w
      in if sleep_interrupted e attempt then (Some (Inl KeyboardInterrupt), w) else (None, w))"

text \<open>
  One pass through the body of the \<^verbatim>\<open>while\<close> loop: \<open>Some r\<close> when the body returns
  \<open>r\<close> (or lets \<^verbatim>\<open>KeyboardInterrupt\<close> through), \<open>None\<close> when it has waited, counted
  the attempt and continues. \<^verbatim>\<open>response.json()\<close> raising, and \<^verbatim>\<open>.get\<close> on a body
  that is not an object, end in the \<^verbatim>\<open>except Exception\<close> branch.
\<close>

definition check_status :: "env \<Rightarrow> string \<Rightarrow> nat \<Rightarrow> world \<Rightarrow> (exn + bool) option \<times> world" where
  "check_status e status_url attempt w =
     (let w = emit (EvHttpGet status_url) w
      in case poll_reply e attempt of
           Raises x \<Rightarrow>
             (if x = KeyboardInterrupt then (Some (Inl KeyboardInterrupt), w)
              else wait_and_retry e attempt (say MsgStatusCheckError w))
         | Response code text js \<Rightarrow>
             (if code = 200 then
                (case js of
                   JsonObject status_data \<Rightarrow>
                     (let status = (case status_data ''status'' of
                                      None \<Rightarrow> JString ''unknown'' | Some v \<Rightarrow> v);
                          w = say (MsgProcessingStatus status) w
                      in if status = JString ''completed'' then
                           (let w = say MsgProcessingCompleted w
                            in (Some (Inr True),
                                case status_data ''publication_url'' of
                                  Some url \<Rightarrow> say (MsgPublishedAt url) w
                                | None \<Rightarrow> w))
                         else if status = JString ''failed'' then
                           (let w = say MsgProcessingFailed w
                            in (Some (Inr False),
                                case status_data ''error'' of
                                  Some err \<Rightarrow> say (MsgProcessingError err) w
                                | None \<Rightarrow> w))
                         else if status = JString ''processing'' \<or> status = JString ''queued''
                                 \<or> status = JString ''uploading'' then
                           wait_and_retry e attempt w
                         else wait_and_retry e attempt (say (MsgUnknownStatus status) w))
                 | JsonNonObject \<Rightarrow> wait_and_retry e attempt (say MsgStatusCheckError w)
                 | NotJson \<Rightarrow> wait_and_retry e attempt (say MsgStatusCheckError w))
              else wait_and_retry e attempt (say (MsgStatusCheckFailed code) w)))"

function monitor_loop :: "env \<Rightarrow> string \<Rightarrow> nat \<Rightarrow> world \<Rightarrow> (exn + bool) \<times> world" where
  "monitor_loop e status_url attempt w =
     (if attempt < max_attempts then
        (case check_status e status_url attempt w of
           (Some r, w') \<Rightarrow> (r, w')
         | (None, w') \<Rightarrow> monitor_loop e status_url (attempt + 1) w')
      else (Inr False, say MsgMonitoringTimedOut w))"
  by pat_completeness auto
termination
  by (relation "measure (\<lambda>(e, status_url, attempt, w). max_attempts - attempt)") auto

definition monitor_processing :: "env \<Rightarrow> uploader \<Rightarrow> jval \<Rightarrow> world \<Rightarrow> (exn + bool) \<times> world" where
  "monitor_processing e u upload_id w =
     monitor_loop e (base_url u @ ''/api/documents/upload/'' @ py_str upload_id @ ''/status'') 0
       (say MsgMonitoring w)"

section \<open>Upload\<close>

text \<open>
  One request, inside one \<^verbatim>\<open>try\<close>. \<^verbatim>\<open>open\<close> raising, \<^verbatim>\<open>response.json()\<close>
  raising, and \<^verbatim>\<open>.get\<close> on a body that is not an object (after the success line has
  been printed) end in \<^verbatim>\<open>except Exception\<close>; \<^verbatim>\<open>KeyboardInterrupt\<close> is caught by none
  of the three handlers. With an \<^verbatim>\<open>upload_id\<close> in the body the function returns what
  \<^verbatim>\<open>monitor_processing\<close> returns.
\<close>

definition upload_package :: "env \<Rightarrow> uploader \<Rightarrow> world \<Rightarrow> (exn + bool) \<times> world" where
  "upload_package e u w =
     (let w = say MsgUploading w
      in if archive w = None then (Inr False, say MsgPackageNotFound w)
         else if \<not> read_ok e then (Inr False, say MsgUploadFailed w)
         else
           (let upload_url = base_url u @ ''/api/documents/upload'';
                w = say (MsgUploadingTo upload_url) w;
                w = emit (EvHttpPost upload_url (version_info e)) w
            in case post_reply e of
                 Raises x \<Rightarrow>
                   (case x of
                      Timeout \<Rightarrow> (Inr False, say MsgUploadTimedOut w)
                    | ConnectionError \<Rightarrow> (Inr False, say MsgConnectionFailed w)
                    | KeyboardInterrupt \<Rightarrow> (Inl KeyboardInterrupt, w)
                    | ValueError \<Rightarrow> (Inr False, say MsgUploadFailed w)
                    | OtherError \<Rightarrow> (Inr False, say MsgUploadFailed w))
               | Response code text js \<Rightarrow>
                   (if code = 200 then
                      (case js of
                         NotJson \<Rightarrow> (Inr False, say MsgUploadFailed w)
                       | JsonNonObject \<Rightarrow>
                           (Inr False, say MsgUploadFailed (say MsgUploadSuccessful w))
                       | JsonObject result \<Rightarrow>
                           (let w = say MsgUploadSuccessful w;
                                w = say (MsgUploadId (result ''upload_id'')) w;
                                w = say (MsgUploadStatus (result ''status'')) w
                            in case result ''upload_id'' of
                                 Some upload_id \<Rightarrow> monitor_processing e u upload_id w
                               | None \<Rightarrow> (Inr True, w)))
                    else if code = 401 then (Inr False, say MsgAuthFailed w)
                    else if code = 413 then (Inr False, say MsgTooLarge w)
                    else (Inr False,
                          say (MsgResponseText text) (say (MsgUploadFailedStatus code) w)))))"

section \<open>Cleanup and deployment\<close>

text \<open>
  \<open>EvCleanup\<close> marks each call of \<^verbatim>\<open>cleanup\<close>; \<open>EvRemove\<close> is the deletion of the
  archive. A failing \<^verbatim>\<open>os.remove\<close> is printed as a warning.
\<close>

definition cleanup :: "env \<Rightarrow> world \<Rightarrow> world" where
  "cleanup e w =
     (let w = emit EvCleanup w
      in if archive w \<noteq> None then
           (if remove_ok e then say MsgCleanedUp (emit EvRemove (w\<lparr>archive := None\<rparr>))
            else say MsgCleanupWarning w)
         else w)"

definition deploy :: "env \<Rightarrow> uploader \<Rightarrow> world \<Rightarrow> bool \<times> world" where
  "deploy e u w =
     (let w = say MsgDeployStart w
      in case create_package e w of
           (False, w) \<Rightarrow> (False, w)
         | (True, w) \<Rightarrow>
             (case upload_package e u w of
                (Inr success, w) \<Rightarrow>
                  (let w = cleanup e w
                   in (success, say (if success then MsgDeployCompleted else MsgDeployFailed) w))
              | (Inl KeyboardInterrupt, w) \<Rightarrow> (False, cleanup e (say MsgDeployInterrupted w))
              | (Inl x, w) \<Rightarrow> (False, cleanup e (say MsgDeployError w))))"

text \<open>\<open>main\<close> returns the exit code.\<close>

definition main :: "env \<Rightarrow> world \<Rightarrow> nat \<times> world" where
  "main e w =
     (case init e of
        Inl x \<Rightarrow> (1, say MsgConfigurationError w)
      | Inr u \<Rightarrow>
          (case deploy e u w of
             (True, w) \<Rightarrow> (0, say MsgAllOperationsCompleted w)
           | (False, w) \<Rightarrow> (1, say MsgCheckErrorsAbove w)))"

section \<open>The Markdown linter\<close>

text \<open>
  \<^verbatim>\<open>content.split('\n')\<close>: the pieces between newlines, one more than there are
  newlines. \<open>lstrip\<close> is \<^verbatim>\<open>str.lstrip(chars)\<close> for a one-character set, and \<open>strip\<close>
  is \<^verbatim>\<open>str.strip()\<close> on ASCII text.
\<close>

definition newline :: char where "newline = CHR 0x0A"

fun split_lines :: "string \<Rightarrow> string list" where
  "split_lines [] = [[]]"
| "split_lines (c # cs) =
     (if c = newline then [] # split_lines cs
      else (case split_lines cs of
              [] \<Rightarrow> [[c]]
            | l # ls \<Rightarrow> (c # l) # ls))"

definition lstrip :: "char \<Rightarrow> string \<Rightarrow> string" where
  "lstrip c s = dropWhile (\<lambda>x. x = c) s"

definition is_space :: "char \<Rightarrow> bool" where
  "is_space c = (c \<in> {CHR '' '', CHR 0x09, CHR 0x0A, CHR 0x0B, CHR 0x0C, CHR 0x0D})"

definition strip :: "string \<Rightarrow> string" where
  "strip s = rev (dropWhile is_space (rev (dropWhile is_space s)))"

text \<open>
  The findings of a run: \<^verbatim>\<open>self.errors\<close> and \<^verbatim>\<open>self.warnings\<close>, each entry the file
  it is about and the message, in the order they were appended.
\<close>

record 'm checker =
  errors :: "(string \<times> 'm) list"
  warnings :: "(string \<times> 'm) list"

definition add_error :: "string \<Rightarrow> 'm \<Rightarrow> 'm checker \<Rightarrow> 'm checker" where
  "add_error file_path message st = st\<lparr>errors := errors st @ [(file_path, message)]\<rparr>"

definition add_warning :: "string \<Rightarrow> 'm \<Rightarrow> 'm checker \<Rightarrow> 'm checker" where
  "add_warning file_path message st = st\<lparr>warnings := warnings st @ [(file_path, message)]\<rparr>"

datatype lint_msg =
    FoundH1Headings nat
  | HeadingLevelJumps nat nat nat
  | MissingLanguage nat
  | UnclosedCodeBlock

text \<open>
  \<^verbatim>\<open>check_heading_structure\<close>. The first loop collects, for every line that starts
  with \<^verbatim>\<open>#\<close>, its level (the number of leading \<^verbatim>\<open>#\<close>), its text and its line number,
  counted from 1.
\<close>

definition heading_level :: "string \<Rightarrow> nat" where
  "heading_level line = length line - length (lstrip (CHR ''#'') line)"

fun headings_from :: "nat \<Rightarrow> string list \<Rightarrow> (nat \<times> string \<times> nat) list" where
  "headings_from i [] = []"
| "headings_from i (line # lines) =
     (if startswith line ''#''
      then (heading_level line, strip (lstrip (CHR ''#'') line), i) # headings_from (i + 1) lines
      else headings_from (i + 1) lines)"

text \<open>
  The second loop compares every heading but the first with the one before it, and warns
  when the level goes up by more than one.
\<close>

fun heading_jumps :: "(nat \<times> string \<times> nat) list \<Rightarrow> lint_msg list" where
  "heading_jumps ((prev_level, prev_text, prev_line) # (level, heading_text, line_num) # hs) =
     (if level > prev_level + 1 then [HeadingLevelJumps line_num prev_level level] else [])
       @ heading_jumps ((level, heading_text, line_num) # hs)"
| "heading_jumps hs = []"

definition check_heading_structure ::
  "string \<Rightarrow> string \<Rightarrow> lint_msg checker \<Rightarrow> bool \<times> lint_msg checker" where
  "check_heading_structure file_path content st =
     (let lines = split_lines content;
          headings = headings_from 1 lines;
          h1_count = length (filter (\<lambda>(level, heading_text, line_num). level = 1) headings);
          (success, st) =
            (if h1_count \<noteq> 1 then (False, add_error file_path (FoundH1Headings h1_count) st)
             else (True, st))
      in (success, fold (add_warning file_path) (heading_jumps headings) st))"

text \<open>
  \<^verbatim>\<open>check_code_blocks\<close>. The loop keeps \<^verbatim>\<open>in_code_block\<close>, toggled by every line that
  starts with three backticks; an opening fence that is exactly three backticks gets a
  warning.
\<close>

definition fence :: string where "fence = replicate 3 (CHR 0x60)"

fun scan_code_blocks ::
  "string \<Rightarrow> nat \<Rightarrow> string list \<Rightarrow> bool \<Rightarrow> lint_msg checker \<Rightarrow> bool \<times> lint_msg checker" where
  "scan_code_blocks file_path i [] in_code_block st = (in_code_block, st)"
| "scan_code_blocks file_path i (line # lines) in_code_block st =
     (if startswith line fence then
        (if \<not> in_code_block then
           (let language = strip (drop 3 line)
            in scan_code_blocks file_path (i + 1) lines True
                 (if language = [] \<and> line = fence
                  then add_warning file_path (MissingLanguage i) st else st))
         else scan_code_blocks file_path (i + 1) lines False st)
      else scan_code_blocks file_path (i + 1) lines in_code_block st)"

definition check_code_blocks ::
  "string \<Rightarrow> string \<Rightarrow> lint_msg checker \<Rightarrow> bool \<times> lint_msg checker" where
  "check_code_blocks file_path content st =
     (case scan_code_blocks file_path 1 (split_lines content) False st of
        (in_code_block, st) \<Rightarrow>
          (if in_code_block then (False, add_error file_path UnclosedCodeBlock st)
           else (True, st)))"

section \<open>Reference notions for the packaging claims\<close>











section \<open>Reference notions for the polling claims\<close>





text \<open>A status reply with the given label and, when given, a publication URL.\<close>

definition status_reply :: "string \<Rightarrow> jval option \<Rightarrow> reply" where
  "status_reply label url =
     Response 200 '''' (JsonObject ((\<lambda>k. None)(''status'' := Some (JString label), ''publication_url'' := url)))"

text \<open>
  Scenario D: \<^verbatim>\<open>processing\<close> on the first five queries, \<^verbatim>\<open>completed\<close> with a
  publication URL on the sixth, anything afterwards.
\<close>

definition scenario_D :: "jval \<Rightarrow> (nat \<Rightarrow> reply) \<Rightarrow> nat \<Rightarrow> reply" where
  "scenario_D url rest k =
     (if k < 5 then status_reply ''processing'' None
      else if k = 5 then status_reply ''completed'' (Some url)
      else rest k)"

section \<open>Reference notions for the upload claim\<close>


section \<open>Reference notions for the linter claim\<close>

text \<open>
  The lines of a document that are outside fenced code blocks, a fence being a line that
  starts with three backticks, and the top-level headings of the document as Markdown
  reads it: the lines outside fenced code blocks that start with one \<^verbatim>\<open>#\<close> and a
  space.
\<close>

fun outside_fences :: "bool \<Rightarrow> string list \<Rightarrow> string list" where
  "outside_fences inside [] = []"
| "outside_fences inside (line # lines) =
     (if startswith line fence then outside_fences (\<not> inside) lines
      else if inside then outside_fences inside lines
      else line # outside_fences inside lines)"

definition markdown_h1_lines :: "string \<Rightarrow> string list" where
  "markdown_h1_lines content =
     filter (\<lambda>line. startswith line ''# '') (outside_fences False (split_lines content))"

text \<open>The text made of the given lines, each ended by a newline.\<close>

definition text_of_lines :: "string list \<Rightarrow> string" where
  "text_of_lines ls = concat (map (\<lambda>l. l @ [newline]) ls)"

section \<open>Concrete runs\<close>

definition world0 :: world where
  "world0 = \<lparr>archive = None, trace = [], printed = []\<rparr>"

definition env0 :: env where
  "env0 = \<lparr>getenv = (\<lambda>k. None), dir_tree = (\<lambda>d. None), version_info = ''build-0'',
            open_ok = True, read_ok = True,
            post_reply = Raises ConnectionError, poll_reply = (\<lambda>k. Raises ConnectionError),
            sleep_interrupted = (\<lambda>k. False), remove_ok = True\<rparr>"

definition credentials :: "string \<Rightarrow> string option" where
  "credentials =
     [''FLUID_URL'' \<mapsto> ''https://ft.example.com/'', ''FLUID_USER'' \<mapsto> ''ci'',
      ''FLUID_PASS'' \<mapsto> ''secret'']"

definition uploader0 :: uploader where
  "uploader0 = \<lparr>base_url = ''https://ft.example.com'', username = ''ci'', password = ''secret''\<rparr>"

text \<open>A \<^verbatim>\<open>FLUID_URL\<close> that consists of a slash only.\<close>

definition env_slash_url :: env where
  "env_slash_url =
     env0\<lparr>getenv := [''FLUID_URL'' \<mapsto> ''/'', ''FLUID_USER'' \<mapsto> ''ci'', ''FLUID_PASS'' \<mapsto> ''secret'']\<rparr>"

text \<open>A built site with one page.\<close>

definition env_one_page :: env where
  "env_one_page =
     env0\<lparr>getenv := credentials,
          dir_tree := [''site'' \<mapsto> Dir ''site'' Listable [File ''index.html'' True]]\<rparr>"

text \<open>A built site whose second file cannot be read.\<close>

definition site_unreadable :: node where
  "site_unreadable = Dir ''site'' Listable [File ''index.html'' True, File ''draft.html'' False]"

definition env_unreadable :: env where
  "env_unreadable = env0\<lparr>getenv := credentials, dir_tree := [''site'' \<mapsto> site_unreadable]\<rparr>"





text \<open>A built site, and a working directory in which the archive cannot be created.\<close>

definition env_no_open :: env where
  "env_no_open = env_one_page\<lparr>open_ok := False\<rparr>"








section \<open>A concrete document\<close>

text \<open>
  An installation page: one title, and a shell snippet with a comment line in a fenced
  block.
\<close>

definition linter0 :: "lint_msg checker" where
  "linter0 = \<lparr>errors = [], warnings = []\<rparr>"

definition install_md :: string where
  "install_md =
     text_of_lines
       [''# Installation'',
        '''',
        fence @ ''bash'',
        ''# install the package'',
        ''pip install docsflow'',
        fence]"

section \<open>Facts about the constructor\<close>

declare walk.simps [simp del]

lemma rstrip_empty_iff: "rstrip c s = [] \<longleftrightarrow> (\<forall>x \<in> set s. x = c)"
  by (simp add: rstrip_def dropWhile_eq_Nil_conv)

text \<open>
  C7, as the code has it. The constructor raises \<^verbatim>\<open>ValueError\<close> when one of the three
  settings is absent or empty (\<^verbatim>\<open>os.getenv\<close> with default \<^verbatim>\<open>""\<close>), and then \<open>main\<close>
  only prints the configuration error and exits with 1: nothing is packaged, sent or
  deleted. The URL is checked after its trailing slashes are stripped, so the constructor
  succeeds when the user name and the password are not empty and the URL has a character
  other than \<^verbatim>\<open>/\<close>, and it raises for a URL made of slashes only.
\<close>

theorem init_checks_configuration:
  "(getenv_default e ''FLUID_URL'' '''' = [] \<or> getenv_default e ''FLUID_USER'' '''' = []
      \<or> getenv_default e ''FLUID_PASS'' '''' = [] \<longrightarrow> init e = Inl ValueError)
   \<and> (init e = Inl ValueError \<longrightarrow> main e w = (1, say MsgConfigurationError w))
   \<and> ((\<exists>c \<in> set (getenv_default e ''FLUID_URL'' ''''). c \<noteq> CHR ''/'')
        \<and> getenv_default e ''FLUID_USER'' '''' \<noteq> [] \<and> getenv_default e ''FLUID_PASS'' '''' \<noteq> []
      \<longrightarrow> init e = Inr \<lparr>base_url = rstrip CHR ''/'' (getenv_default e ''FLUID_URL'' ''''),
                         username = getenv_default e ''FLUID_USER'' '''',
                         password = getenv_default e ''FLUID_PASS'' ''''\<rparr>)
   \<and> ((\<forall>c \<in> set (getenv_default e ''FLUID_URL'' ''''). c = CHR ''/'') \<longrightarrow> init e = Inl ValueError)"
  by (auto simp: init_def main_def rstrip_empty_iff Let_def)

theorem init_checks_configuration_witness:
  "init env_one_page = Inr uploader0
   \<and> init env0 = Inl ValueError
   \<and> main env0 world0 = (1, \<lparr>archive = None, trace = [], printed = [MsgConfigurationError]\<rparr>)
   \<and> init env_slash_url = Inl ValueError"
  using init_checks_configuration [of env_one_page world0]
    init_checks_configuration [of env0 world0]
    init_checks_configuration [of env_slash_url world0]
  by (simp add: env_one_page_def env0_def env_slash_url_def credentials_def getenv_default_def
      uploader0_def rstrip_def world0_def say_def)

text \<open>
  C7 as stated fails: with \<^verbatim>\<open>FLUID_URL=/\<close> all three settings are present and not empty,
  and the constructor raises.
\<close>

theorem nonempty_settings_rejected:
  "getenv env_slash_url ''FLUID_URL'' = Some ''/''
   \<and> getenv env_slash_url ''FLUID_USER'' = Some ''ci''
   \<and> getenv env_slash_url ''FLUID_PASS'' = Some ''secret''
   \<and> init env_slash_url = Inl ValueError"
  by (simp add: env_slash_url_def env0_def init_def getenv_default_def rstrip_def)

section \<open>Facts about packaging\<close>

lemma write_files_eq:
  "write_files ps n w =
     ((if list_all snd ps then Inr (n + length ps) else Inl OtherError),
      fold zip_write (map fst (takeWhile snd ps)) w)"
  by (induction ps n w rule: write_files.induct) auto

lemma zip_write_sel [simp]:
  "archive (zip_write p w) = map_option (\<lambda>z. Zip (members z @ [p]) False) (archive w)"
  "trace (zip_write p w) = trace w @ [EvZipWrite p]"
  "printed (zip_write p w) = printed w"
  by (simp_all add: zip_write_def emit_def)

lemma fold_zip_write_archive:
  "archive (fold zip_write ps w) =
     (if ps = [] then archive w else map_option (\<lambda>z. Zip (members z @ ps) False) (archive w))"
  by (induction ps arbitrary: w) (auto simp: option.map_comp o_def)

lemma fold_zip_write_trace: "trace (fold zip_write ps w) = trace w @ map EvZipWrite ps"
  by (induction ps arbitrary: w) auto

lemma fold_zip_write_printed: "printed (fold zip_write ps w) = printed w"
  by (induction ps arbitrary: w) auto



text \<open>What \<open>create_package\<close> does when the source path exists.\<close>

lemma create_package_found:
  assumes "dir_tree e (source_dir e) = Some tree" and "open_ok e"
  shows "create_package e w =
     (if list_all snd (walk_top tree) then
        (if read_ok e then
           (True, w\<lparr>archive := Some (Zip (map fst (walk_top tree)) True),
                    trace := trace w @ [EvZipOpen] @ map EvZipWrite (map fst (walk_top tree))
                               @ [EvChecksum, EvZipClose],
                    printed := printed w @ [MsgCreatingPackage,
                               MsgPackageCreated (length (walk_top tree)),
                               MsgChecksum (Zip (map fst (walk_top tree)) False)]\<rparr>)
         else
           (False, w\<lparr>archive := Some (Zip (map fst (walk_top tree)) True),
                     trace := trace w @ [EvZipOpen] @ map EvZipWrite (map fst (walk_top tree))
                                @ [EvZipClose],
                     printed := printed w @ [MsgCreatingPackage,
                                MsgPackageCreated (length (walk_top tree)), MsgPackageFailed]\<rparr>))
      else
        (False, w\<lparr>archive := Some (Zip (map fst (takeWhile snd (walk_top tree))) True),
                  trace := trace w @ [EvZipOpen]
                             @ map EvZipWrite (map fst (takeWhile snd (walk_top tree)))
                             @ [EvZipClose],
                  printed := printed w @ [MsgCreatingPackage, MsgPackageFailed]\<rparr>))"
proof (cases "list_all snd (walk_top tree)")
  case True
  then have *: "takeWhile snd (walk_top tree) = walk_top tree" by (simp add: list_all_iff)
  show ?thesis
    using assms True
    by (auto simp: create_package_def write_files_eq * calculate_checksum_def
        fold_zip_write_archive fold_zip_write_trace fold_zip_write_printed say_def emit_def
        zip_close_def Let_def intro!: world.equality)
next
  case False
  show ?thesis
    using assms False
    by (auto simp: create_package_def write_files_eq
        fold_zip_write_archive fold_zip_write_trace fold_zip_write_printed say_def emit_def
        zip_close_def Let_def intro!: world.equality)
qed


















section \<open>The packaging claims\<close>







text \<open>
  C2. The claim fails on the code: \<^verbatim>\<open>calculate_checksum\<close> is called inside the
  \<^verbatim>\<open>with zipfile.ZipFile(...)\<close> block. On a site with one page the digest is taken
  (\<open>EvChecksum\<close>) before the writer is closed (\<open>EvZipClose\<close>), over the image that is
  not yet finalized, while the archive left on disk is the finalized one.
\<close>

theorem checksum_taken_before_close:
  "create_package env_one_page world0 =
     (True, \<lparr>archive = Some (Zip [[''index.html'']] True),
             trace = [EvZipOpen, EvZipWrite [''index.html''], EvChecksum, EvZipClose],
             printed = [MsgCreatingPackage, MsgPackageCreated 1,
                        MsgChecksum (Zip [[''index.html'']] False)]\<rparr>)"
proof -
  have src: "dir_tree env_one_page (source_dir env_one_page) =
      Some (Dir ''site'' Listable [File ''index.html'' True])"
    by (simp add: env_one_page_def env0_def source_dir_def build_dir_def docs_dir_def)
  have env: "open_ok env_one_page" "read_ok env_one_page"
    by (simp_all add: env_one_page_def env0_def)
  show ?thesis
    by (simp add: create_package_found [OF src env(1)] env(2) walk.simps startswith_def world0_def)
qed

section \<open>Facts about deployment\<close>

text \<open>
  C1. The claim fails on the code: when \<^verbatim>\<open>create_package\<close> returns \<^verbatim>\<open>False\<close>, \<open>deploy\<close>
  returns at once and \<^verbatim>\<open>cleanup\<close> is not called. On a site with an unreadable file the
  archive has been created by then, and it is still on disk when \<open>deploy\<close> returns: the
  trace holds no \<open>EvCleanup\<close> and no \<open>EvRemove\<close>. On the sibling path, where the
  package is created and the upload fails, \<^verbatim>\<open>cleanup\<close> runs once and deletes the archive.
\<close>

theorem deploy_skips_cleanup_when_packaging_fails:
  "deploy env_unreadable uploader0 world0 =
     (False, \<lparr>archive = Some (Zip [[''index.html'']] True),
              trace = [EvZipOpen, EvZipWrite [''index.html''], EvZipClose],
              printed = [MsgDeployStart, MsgCreatingPackage, MsgPackageFailed]\<rparr>)
   \<and> deploy env_one_page uploader0 world0 =
     (False, \<lparr>archive = None,
              trace = [EvZipOpen, EvZipWrite [''index.html''], EvChecksum, EvZipClose,
                       EvHttpPost ''https://ft.example.com/api/documents/upload'' ''build-0'',
                       EvCleanup, EvRemove],
              printed = [MsgDeployStart, MsgCreatingPackage, MsgPackageCreated 1,
                         MsgChecksum (Zip [[''index.html'']] False), MsgUploading,
                         MsgUploadingTo ''https://ft.example.com/api/documents/upload'',
                         MsgConnectionFailed, MsgCleanedUp, MsgDeployFailed]\<rparr>)"
proof -
  have src1: "dir_tree env_unreadable (source_dir env_unreadable) = Some site_unreadable"
    by (simp add: env_unreadable_def env0_def source_dir_def build_dir_def docs_dir_def)
  have src2: "dir_tree env_one_page (source_dir env_one_page) =
      Some (Dir ''site'' Listable [File ''index.html'' True])"
    by (simp add: env_one_page_def env0_def source_dir_def build_dir_def docs_dir_def)
  have env1: "open_ok env_unreadable"
    by (simp add: env_unreadable_def env0_def)
  have env: "post_reply env_one_page = Raises ConnectionError" "remove_ok env_one_page"
    "version_info env_one_page = ''build-0''" "open_ok env_one_page" "read_ok env_one_page"
    by (simp_all add: env_one_page_def env0_def)
  have w1: "walk_top site_unreadable = [([''index.html''], True), ([''draft.html''], False)]"
    by (simp add: site_unreadable_def walk.simps startswith_def)
  have "deploy env_unreadable uploader0 world0 =
     (False, \<lparr>archive = Some (Zip [[''index.html'']] True),
              trace = [EvZipOpen, EvZipWrite [''index.html''], EvZipClose],
              printed = [MsgDeployStart, MsgCreatingPackage, MsgPackageFailed]\<rparr>)"
    by (simp add: deploy_def create_package_found [OF src1 env1] w1 world0_def say_def)
  moreover have "deploy env_one_page uploader0 world0 =
     (False, \<lparr>archive = None,
              trace = [EvZipOpen, EvZipWrite [''index.html''], EvChecksum, EvZipClose,
                       EvHttpPost ''https://ft.example.com/api/documents/upload'' ''build-0'',
                       EvCleanup, EvRemove],
              printed = [MsgDeployStart, MsgCreatingPackage, MsgPackageCreated 1,
                         MsgChecksum (Zip [[''index.html'']] False), MsgUploading,
                         MsgUploadingTo ''https://ft.example.com/api/documents/upload'',
                         MsgConnectionFailed, MsgCleanedUp, MsgDeployFailed]\<rparr>)"
    by (simp add: deploy_def create_package_found [OF src2 env(4)] walk.simps startswith_def
        world0_def say_def emit_def upload_package_def cleanup_def uploader0_def env Let_def)
  ultimately show ?thesis by simp
qed

section \<open>Facts about polling\<close>

declare monitor_loop.simps [simp del]


lemma monitor_loop_return:
  "attempt < max_attempts \<Longrightarrow> check_status e url attempt w = (Some r, w') \<Longrightarrow>
   monitor_loop e url attempt w = (r, w')"
  by (simp add: monitor_loop.simps)

lemma monitor_loop_retry:
  "attempt < max_attempts \<Longrightarrow> check_status e url attempt w = (None, w') \<Longrightarrow>
   monitor_loop e url attempt w = monitor_loop e url (Suc attempt) w'"
  by (simp add: monitor_loop.simps)

lemma wait_and_retry_eq:
  "wait_and_retry e k w =
     ((if sleep_interrupted e k then Some (Inl KeyboardInterrupt) else None), emit (EvSleep 10) w)"
  by (simp add: wait_and_retry_def Let_def)




lemma monitor_loop_unfold:
  "attempt < max_attempts \<Longrightarrow>
   monitor_loop e url attempt w =
     (case fst (check_status e url attempt w) of
        Some r \<Rightarrow> (r, snd (check_status e url attempt w))
      | None \<Rightarrow> monitor_loop e url (Suc attempt) (snd (check_status e url attempt w)))"
  by (cases "check_status e url attempt w")
    (simp add: monitor_loop.simps split: option.splits)





section \<open>The polling claims\<close>

lemma check_status_processing:
  "poll_reply e k = status_reply ''processing'' None \<Longrightarrow> \<not> sleep_interrupted e k \<Longrightarrow>
   check_status e url k w =
     (None, w\<lparr>trace := trace w @ [EvHttpGet url, EvSleep 10],
               printed := printed w @ [MsgProcessingStatus (JString ''processing'')]\<rparr>)"
  by (simp add: check_status_def wait_and_retry_eq status_reply_def Let_def say_def emit_def)

lemma check_status_completed:
  "poll_reply e k = status_reply ''completed'' purl \<Longrightarrow>
   check_status e url k w =
     (Some (Inr True),
      w\<lparr>trace := trace w @ [EvHttpGet url],
        printed := printed w @ [MsgProcessingStatus (JString ''completed''), MsgProcessingCompleted]
                     @ (case purl of None \<Rightarrow> [] | Some p \<Rightarrow> [MsgPublishedAt p])\<rparr>)"
  by (simp add: check_status_def wait_and_retry_eq status_reply_def Let_def say_def emit_def
      split: option.splits)




text \<open>
  C4. Scenario D: five replies \<^verbatim>\<open>processing\<close>, then \<^verbatim>\<open>completed\<close> with a publication
  URL, and no wait interrupted. The poller returns \<^verbatim>\<open>True\<close> and prints the URL, after
  six queries and five waits of 10 seconds, one after each of the first five queries and
  none after the sixth.
\<close>

theorem scenario_D_poll:
  "monitor_processing (e\<lparr>poll_reply := scenario_D url rest, sleep_interrupted := (\<lambda>k. False)\<rparr>)
       u upload_id w =
     (Inr True,
      w\<lparr>trace := trace w @
           [EvHttpGet (base_url u @ ''/api/documents/upload/'' @ py_str upload_id @ ''/status''),
            EvSleep 10,
            EvHttpGet (base_url u @ ''/api/documents/upload/'' @ py_str upload_id @ ''/status''),
            EvSleep 10,
            EvHttpGet (base_url u @ ''/api/documents/upload/'' @ py_str upload_id @ ''/status''),
            EvSleep 10,
            EvHttpGet (base_url u @ ''/api/documents/upload/'' @ py_str upload_id @ ''/status''),
            EvSleep 10,
            EvHttpGet (base_url u @ ''/api/documents/upload/'' @ py_str upload_id @ ''/status''),
            EvSleep 10,
            EvHttpGet (base_url u @ ''/api/documents/upload/'' @ py_str upload_id @ ''/status'')],
        printed := printed w @
           [MsgMonitoring,
            MsgProcessingStatus (JString ''processing''),
            MsgProcessingStatus (JString ''processing''),
            MsgProcessingStatus (JString ''processing''),
            MsgProcessingStatus (JString ''processing''),
            MsgProcessingStatus (JString ''processing''),
            MsgProcessingStatus (JString ''completed''),
            MsgProcessingCompleted,
            MsgPublishedAt url]\<rparr>)"
proof -
  let ?e = "e\<lparr>poll_reply := scenario_D url rest, sleep_interrupted := (\<lambda>k. False)\<rparr>"
  have s: "\<not> sleep_interrupted ?e k" for k
    by simp
  have p: "poll_reply ?e k = status_reply ''processing'' None" if "k < 5" for k
    using that by (simp add: scenario_D_def)
  have c: "poll_reply ?e 5 = status_reply ''completed'' (Some url)"
    by (simp add: scenario_D_def)
  have n: "Suc (Suc (Suc (Suc (Suc 0)))) = 5" by simp
  show ?thesis
    by (simp add: monitor_processing_def monitor_loop_unfold max_attempts_def
        check_status_processing [OF p s] check_status_completed [OF c [folded n]] say_def)
qed

section \<open>Facts about the upload\<close>







section \<open>The upload claim\<close>




end
